theory Spec2Isabelle
  imports Main "HOL-Library.AList"
begin

section \<open>Python values\<close>

text \<open>
  The client is dynamically typed: the constructor tests its credential with
  \<^verbatim>\<open>isinstance(api_key, str)\<close>, the publish operation tests its frontmatter with
  \<^verbatim>\<open>isinstance(frontmatter, dict)\<close>, and decoded response bodies are arbitrary JSON
  values. \<open>pyval\<close> is the universe of JSON-like Python values; a \<open>dict\<close> is an
  association list in insertion order, read with \<open>map_of\<close> and written with
  \<open>AList.update\<close> (replace in place, else append).
\<close>

datatype pyval =
    PNone
  | PBool bool
  | PInt int
  | PStr string
  | PList "pyval list"
  | PDict "(string \<times> pyval) list"

type_synonym pydict = "(string \<times> pyval) list"

type_synonym bytes = "char list"

text \<open>Truth value of a Python value, as tested by \<^verbatim>\<open>not x\<close> and \<^verbatim>\<open>if x:\<close>.\<close>

fun truthy :: "pyval \<Rightarrow> bool" where
  "truthy PNone = False"
| "truthy (PBool b) = b"
| "truthy (PInt i) = (i \<noteq> 0)"
| "truthy (PStr s) = (s \<noteq> [])"
| "truthy (PList xs) = (xs \<noteq> [])"
| "truthy (PDict d) = (d \<noteq> [])"

fun isinstance_str :: "pyval \<Rightarrow> bool" where
  "isinstance_str (PStr s) = True"
| "isinstance_str v = False"

fun isinstance_dict :: "pyval \<Rightarrow> bool" where
  "isinstance_dict (PDict d) = True"
| "isinstance_dict v = False"

text \<open>\<^verbatim>\<open>s.startswith(p)\<close> and \<^verbatim>\<open>s.rstrip("/")\<close> (every trailing slash goes).\<close>

definition startswith :: "string \<Rightarrow> string \<Rightarrow> bool" where
  "startswith s p = (take (length p) s = p)"

definition rstrip_slash :: "string \<Rightarrow> string" where
  "rstrip_slash s = rev (dropWhile (\<lambda>c. c = CHR ''/'') (rev s))"

text \<open>
  Two functions of the Python runtime are used and not defined by the client:
  \<^verbatim>\<open>json.dumps\<close> and the \<^verbatim>\<open>str()\<close> conversion behind every f-string. They are
  parameters of the model. On the values of \<open>pyval\<close> both are total.
\<close>

record pylib =
  json_dumps :: "pyval \<Rightarrow> string"
  py_str :: "pyval \<Rightarrow> string"

section \<open>Exceptions (exceptions.py)\<close>

text \<open>
  One base class \<^verbatim>\<open>APIError(message, status_code=None, response=None)\<close> and five
  subclasses without a body of their own. The class is the error's kind.
\<close>

datatype error_class =
    APIError
  | AuthenticationError
  | ValidationError
  | RateLimitError
  | NotFoundError
  | NetworkError

record api_error =
  error_class :: error_class
  message :: string
  status_code :: "int option"
  response :: "pyval option"

text \<open>
  The exceptions of the \<^verbatim>\<open>requests\<close> library, by the handler that catches them
  first in \<^verbatim>\<open>_request\<close>; each carries its \<^verbatim>\<open>str(e)\<close>. \<open>JSONDecodeError\<close> is what
  \<^verbatim>\<open>response.json()\<close> raises on a body that is not JSON.
\<close>

datatype request_exception =
    Timeout string
  | ConnectionError string
  | JSONDecodeError string
  | RequestException string

fun exception_str :: "request_exception \<Rightarrow> string" where
  "exception_str (Timeout e) = e"
| "exception_str (ConnectionError e) = e"
| "exception_str (JSONDecodeError e) = e"
| "exception_str (RequestException e) = e"

text \<open>Everything a call of the client can raise.\<close>

datatype exn =
    Raised api_error
  | Requests request_exception
  | AttributeError
  | KeyError string
  | TypeError

definition raise :: "error_class \<Rightarrow> string \<Rightarrow> int option \<Rightarrow> pyval option \<Rightarrow> exn + 'a" where
  "raise cls msg sc resp =
     Inl (Raised \<lparr>error_class = cls, message = msg, status_code = sc, response = resp\<rparr>)"

definition bind :: "exn + 'a \<Rightarrow> ('a \<Rightarrow> exn + 'b) \<Rightarrow> exn + 'b" where
  "bind m f = (case m of Inl e \<Rightarrow> Inl e | Inr x \<Rightarrow> f x)"

text \<open>
  \<^verbatim>\<open>x.get(k, default)\<close> exists on a dict only; \<^verbatim>\<open>x[k]\<close> with a string key raises
  KeyError on a dict without the key and TypeError on every other value of \<open>pyval\<close>.
\<close>

fun py_get :: "pyval \<Rightarrow> string \<Rightarrow> pyval \<Rightarrow> exn + pyval" where
  "py_get (PDict d) k dflt = Inr (case map_of d k of None \<Rightarrow> dflt | Some v \<Rightarrow> v)"
| "py_get v k dflt = Inl AttributeError"

fun py_getitem :: "pyval \<Rightarrow> string \<Rightarrow> exn + pyval" where
  "py_getitem (PDict d) k = (case map_of d k of None \<Rightarrow> Inl (KeyError k) | Some v \<Rightarrow> Inr v)"
| "py_getitem v k = Inl TypeError"

section \<open>Result records (models.py)\<close>

text \<open>
  The dataclasses check no types: a field holds whatever the decoded body held.
\<close>

record PublishResponse =
  success :: bool
  article_id :: pyval
  published_id :: pyval
  web_url :: pyval
  images :: pyval
  created_at :: pyval

record DeleteResponse =
  success :: bool
  article_id :: pyval
  published_id :: pyval
  deleted_at :: pyval
  archived :: pyval

section \<open>The transport\<close>

text \<open>
  A \<^verbatim>\<open>requests.Response\<close> as the client reads it: the status code, the raw text and
  the outcome of \<^verbatim>\<open>response.json()\<close> (\<open>Inl\<close>: it raises, with that message).
\<close>

record Response =
  status_code :: int
  resp_text :: string
  json :: "string + pyval"

type_synonym files = "(string \<times> (string \<times> bytes)) list"

text \<open>
  What \<^verbatim>\<open>self._session.request\<close> is called with. The two call sites differ in how the
  body is passed: \<^verbatim>\<open>data=data, files=files\<close> (multipart form) or \<^verbatim>\<open>json=data\<close>.
  The session carries the client's headers.
\<close>

datatype body =
    JsonBody "pydict option"
  | MultipartBody "pydict option" files

record session_request =
  http_method :: string
  url :: string
  body :: body
  timeout :: int
  verify :: bool
  session_headers :: "(string \<times> string) list"

datatype transport_result = Raises request_exception | Returns Response

type_synonym transport = "session_request \<Rightarrow> transport_result"

text \<open>
  Every operation returns its outcome together with the requests it handed to the
  transport, in order: the network activity of the call.
\<close>

type_synonym 'a io = "(exn + 'a) \<times> session_request list"

section \<open>The client (client.py)\<close>

record client =
  api_key :: string
  api_url :: string
  verify_ssl :: bool
  headers :: "(string \<times> string) list"

definition DEFAULT_API_URL :: string where
  "DEFAULT_API_URL = ''https://api.bugbounty-ksp.com''"

definition REQUEST_TIMEOUT :: int where
  "REQUEST_TIMEOUT = 30"

text \<open>The arguments of \<^verbatim>\<open>_request(method, endpoint, data, files, timeout)\<close>.\<close>

record request_args =
  arg_method :: string
  arg_endpoint :: string
  arg_data :: "pydict option"
  arg_files :: "files option"
  arg_timeout :: int

subsection \<open>\<^verbatim>\<open>_handle_response_errors\<close>\<close>

text \<open>
  The \<^verbatim>\<open>try: error_data = response.json()\<close> with its bare \<^verbatim>\<open>except\<close>: the decoded
  body, whatever JSON value it is, or a one-entry dict holding the raw text.
\<close>

definition error_data :: "Response \<Rightarrow> pyval" where
  "error_data r =
     (case json r of
        Inr v \<Rightarrow> v
      | Inl _ \<Rightarrow> PDict [(''error'', PStr (resp_text r))])"

definition handle_response_errors :: "pylib \<Rightarrow> Response \<Rightarrow> exn + unit" where
  "handle_response_errors L r =
     (if Response.status_code r < 400 then Inr ()
      else
        bind (py_get (error_data r) ''error''
                (PStr (''HTTP '' @ py_str L (PInt (Response.status_code r)))))
             (\<lambda>error_message.
                if Response.status_code r = 401 then
                  raise AuthenticationError
                    (''Unauthorized: '' @ py_str L error_message @ ''. Check your API key.'')
                    (Some 401) (Some (error_data r))
                else if Response.status_code r = 403 then
                  raise AuthenticationError
                    (''Forbidden: '' @ py_str L error_message @ ''. Check your permissions.'')
                    (Some 403) (Some (error_data r))
                else if Response.status_code r = 404 then
                  raise NotFoundError
                    (''Not found: '' @ py_str L error_message)
                    (Some 404) (Some (error_data r))
                else if Response.status_code r \<in> set [400, 422] then
                  raise ValidationError
                    (''Validation error: '' @ py_str L error_message)
                    (Some (Response.status_code r)) (Some (error_data r))
                else if Response.status_code r = 429 then
                  raise RateLimitError
                    ''Rate limit exceeded. Please try again later.''
                    (Some 429) (Some (error_data r))
                else
                  raise APIError
                    (''API error: '' @ py_str L error_message)
                    (Some (Response.status_code r)) (Some (error_data r))))"

subsection \<open>\<^verbatim>\<open>_request\<close>\<close>

text \<open>
  \<^verbatim>\<open>if files:\<close> takes the multipart branch for a dict with at least one entry; \<open>None\<close>
  and the empty dict take the JSON branch.
\<close>

definition session_request_of :: "client \<Rightarrow> request_args \<Rightarrow> session_request" where
  "session_request_of c a =
     \<lparr>http_method = arg_method a,
      url = api_url c @ arg_endpoint a,
      body = (case arg_files a of
                None \<Rightarrow> JsonBody (arg_data a)
              | Some fs \<Rightarrow> if fs \<noteq> [] then MultipartBody (arg_data a) fs
                           else JsonBody (arg_data a)),
      timeout = arg_timeout a,
      verify = verify_ssl c,
      session_headers = headers c\<rparr>"

text \<open>The body of the \<^verbatim>\<open>try\<close>, then the three \<^verbatim>\<open>except\<close> clauses in their order.\<close>

definition request_try :: "pylib \<Rightarrow> transport \<Rightarrow> client \<Rightarrow> request_args \<Rightarrow> exn + Response" where
  "request_try L T c a =
     (case T (session_request_of c a) of
        Raises e \<Rightarrow> Inl (Requests e)
      | Returns r \<Rightarrow> bind (handle_response_errors L r) (\<lambda>_. Inr r))"

fun request_except :: "pylib \<Rightarrow> int \<Rightarrow> exn \<Rightarrow> exn + Response" where
  "request_except L t (Requests (Timeout e)) =
     raise NetworkError (''Request timeout after '' @ py_str L (PInt t) @ ''s'') None None"
| "request_except L t (Requests (ConnectionError e)) =
     raise NetworkError (''Connection failed: '' @ e) None None"
| "request_except L t (Requests e) =
     raise NetworkError (''Request failed: '' @ exception_str e) None None"
| "request_except L t e = Inl e"

definition request :: "pylib \<Rightarrow> transport \<Rightarrow> client \<Rightarrow> request_args \<Rightarrow> Response io" where
  "request L T c a =
     ((case request_try L T c a of
         Inl e \<Rightarrow> request_except L (arg_timeout a) e
       | Inr r \<Rightarrow> Inr r),
      [session_request_of c a])"

subsection \<open>\<^verbatim>\<open>_verify_authentication\<close> and \<^verbatim>\<open>__init__\<close>\<close>

definition verify_authentication_args :: request_args where
  "verify_authentication_args =
     \<lparr>arg_method = ''GET'', arg_endpoint = ''/api/auth/verify'',
      arg_data = None, arg_files = None, arg_timeout = 5\<rparr>"

definition verify_authentication :: "pylib \<Rightarrow> transport \<Rightarrow> client \<Rightarrow> unit io" where
  "verify_authentication L T c =
     (case request L T c verify_authentication_args of
        (Inl (Requests e), tr) \<Rightarrow>
          (raise NetworkError (''Failed to verify authentication: '' @ exception_str e) None None, tr)
      | (Inl e, tr) \<Rightarrow> (Inl e, tr)
      | (Inr r, tr) \<Rightarrow>
          (if Response.status_code r \<noteq> 200 then
             raise AuthenticationError
               ''Invalid API key. Verify at: https://bugbounty-ksp.com/settings/api-keys''
               None None
           else Inr (), tr))"

text \<open>
  The constructor. For a value that is not a string the first test fails whatever its
  truth value; for a string \<^verbatim>\<open>not api_key\<close> is emptiness. \<open>new_client\<close> is the state
  the constructor has assigned when it starts the probe.
\<close>

definition new_client :: "string \<Rightarrow> string \<Rightarrow> bool \<Rightarrow> client" where
  "new_client k base_url vs =
     \<lparr>api_key = k, api_url = rstrip_slash base_url, verify_ssl = vs,
      headers = [(''Authorization'', ''Bearer '' @ k),
                 (''User-Agent'', ''BugBountyKSP-SDK/1.0''),
                 (''Accept'', ''application/json'')]\<rparr>"

fun init :: "pylib \<Rightarrow> transport \<Rightarrow> pyval \<Rightarrow> string \<Rightarrow> bool \<Rightarrow> client io" where
  "init L T (PStr k) base_url vs =
     (if k = [] then
        (raise ValidationError ''API key must be a non-empty string'' None None, [])
      else if \<not> startswith k ''sk_'' then
        (raise ValidationError
           (''Invalid API key format. Must start with '' @ [CHR 0x27] @ ''sk_'' @ [CHR 0x27])
           None None, [])
      else
        case verify_authentication L T (new_client k base_url vs) of
          (Inl e, tr) \<Rightarrow> (Inl e, tr)
        | (Inr _, tr) \<Rightarrow> (Inr (new_client k base_url vs), tr))"
| "init L T v base_url vs =
     (raise ValidationError ''API key must be a non-empty string'' None None, [])"

subsection \<open>\<^verbatim>\<open>publish_article\<close>\<close>

text \<open>
  The loop \<^verbatim>\<open>for filename, file_bytes in (images or {}).items()\<close> with its dict
  assignment; \<open>part_name\<close> is the f-string \<^verbatim>\<open>f"images[{filename}]"\<close>.
\<close>

definition part_name :: "string \<Rightarrow> string" where
  "part_name filename = ''images['' @ filename @ '']''"

definition publish_files :: "(string \<times> bytes) list option \<Rightarrow> files" where
  "publish_files imgs =
     foldl (\<lambda>fs (filename, file_bytes).
              AList.update (part_name filename) (filename, file_bytes) fs)
           []
           (case imgs of None \<Rightarrow> [] | Some d \<Rightarrow> d)"

definition publish_data :: "pylib \<Rightarrow> string \<Rightarrow> string \<Rightarrow> pyval \<Rightarrow> string \<Rightarrow> pydict" where
  "publish_data L title content frontmatter file_path =
     [(''title'', PStr title),
      (''content'', PStr content),
      (''frontmatter'', PStr (json_dumps L frontmatter)),
      (''file_path'', PStr file_path)]"

definition publish_article_args ::
  "pylib \<Rightarrow> string \<Rightarrow> string \<Rightarrow> pyval \<Rightarrow> (string \<times> bytes) list option \<Rightarrow> string \<Rightarrow> request_args" where
  "publish_article_args L title content frontmatter imgs file_path =
     \<lparr>arg_method = ''POST'', arg_endpoint = ''/api/articles/publish'',
      arg_data = Some (publish_data L title content frontmatter file_path),
      arg_files = (let fs = publish_files imgs in if fs \<noteq> [] then Some fs else None),
      arg_timeout = REQUEST_TIMEOUT\<rparr>"

definition response_json :: "Response \<Rightarrow> exn + pyval" where
  "response_json r =
     (case json r of Inl e \<Rightarrow> Inl (Requests (JSONDecodeError e)) | Inr v \<Rightarrow> Inr v)"

definition make_PublishResponse :: "pyval \<Rightarrow> exn + PublishResponse" where
  "make_PublishResponse result =
     bind (py_getitem result ''article_id'') (\<lambda>a.
     bind (py_getitem result ''published_id'') (\<lambda>p.
     bind (py_getitem result ''web_url'') (\<lambda>w.
     bind (py_get result ''images'' (PDict [])) (\<lambda>i.
     bind (py_getitem result ''created_at'') (\<lambda>t.
       Inr \<lparr>PublishResponse.success = True, PublishResponse.article_id = a,
            PublishResponse.published_id = p, web_url = w, images = i,
            created_at = t\<rparr>)))))"

definition publish_article ::
  "pylib \<Rightarrow> transport \<Rightarrow> client \<Rightarrow> string \<Rightarrow> string \<Rightarrow> pyval
     \<Rightarrow> (string \<times> bytes) list option \<Rightarrow> string \<Rightarrow> PublishResponse io" where
  "publish_article L T c title content frontmatter imgs file_path =
     (if title = [] \<or> content = [] then
        (raise ValidationError ''Title and content are required'' None None, [])
      else if \<not> isinstance_dict frontmatter then
        (raise ValidationError ''Frontmatter must be a dictionary'' None None, [])
      else
        case request L T c (publish_article_args L title content frontmatter imgs file_path) of
          (Inl e, tr) \<Rightarrow> (Inl e, tr)
        | (Inr r, tr) \<Rightarrow> (bind (response_json r) make_PublishResponse, tr))"

subsection \<open>\<^verbatim>\<open>get_article\<close> and \<^verbatim>\<open>delete_article\<close>\<close>



definition delete_article_args :: "string \<Rightarrow> request_args" where
  "delete_article_args pid =
     \<lparr>arg_method = ''DELETE'', arg_endpoint = ''/api/articles/'' @ pid,
      arg_data = None, arg_files = None, arg_timeout = REQUEST_TIMEOUT\<rparr>"

definition make_DeleteResponse :: "pyval \<Rightarrow> exn + DeleteResponse" where
  "make_DeleteResponse result =
     bind (py_getitem result ''article_id'') (\<lambda>a.
     bind (py_getitem result ''published_id'') (\<lambda>p.
     bind (py_getitem result ''deleted_at'') (\<lambda>d.
     bind (py_get result ''archived'' (PBool True)) (\<lambda>ar.
       Inr \<lparr>success = True, article_id = a, published_id = p,
            deleted_at = d, archived = ar\<rparr>))))"

definition delete_article :: "pylib \<Rightarrow> transport \<Rightarrow> client \<Rightarrow> string \<Rightarrow> DeleteResponse io" where
  "delete_article L T c pid =
     (case request L T c (delete_article_args pid) of
        (Inl e, tr) \<Rightarrow> (Inl e, tr)
      | (Inr r, tr) \<Rightarrow> (bind (response_json r) make_DeleteResponse, tr))"

section \<open>Observations\<close>

text \<open>The class and the status code of the API error an outcome raises, if it raises one.\<close>

fun exn_class :: "exn \<Rightarrow> error_class option" where
  "exn_class (Raised e) = Some (error_class e)"
| "exn_class x = None"

fun exn_status :: "exn \<Rightarrow> int option" where
  "exn_status (Raised e) = api_error.status_code e"
| "exn_status x = None"

fun exn_response :: "exn \<Rightarrow> pyval option" where
  "exn_response (Raised e) = response e"
| "exn_response x = None"

definition raised_class :: "exn + 'a \<Rightarrow> error_class option" where
  "raised_class m = (case m of Inl e \<Rightarrow> exn_class e | Inr x \<Rightarrow> None)"

definition raised_status :: "exn + 'a \<Rightarrow> int option" where
  "raised_status m = (case m of Inl e \<Rightarrow> exn_status e | Inr x \<Rightarrow> None)"

definition raised_response :: "exn + 'a \<Rightarrow> pyval option" where
  "raised_response m = (case m of Inl e \<Rightarrow> exn_response e | Inr x \<Rightarrow> None)"

text \<open>
  The classification table of the specification (status code to error kind), to compare
  \<open>handle_response_errors\<close> with.
\<close>

definition classification_table :: "int \<Rightarrow> error_class" where
  "classification_table s =
     (if s = 401 \<or> s = 403 then AuthenticationError
      else if s = 404 then NotFoundError
      else if s = 400 \<or> s = 422 then ValidationError
      else if s = 429 then RateLimitError
      else APIError)"

text \<open>
  Transports that answer every request alike, an instance of the two runtime functions and
  a constructed client, for evaluating the model at concrete inputs.
\<close>

definition always_returns :: "Response \<Rightarrow> transport" where
  [simp]: "always_returns r = (\<lambda>w. Returns r)"

definition always_raises :: "request_exception \<Rightarrow> transport" where
  [simp]: "always_raises e = (\<lambda>w. Raises e)"

definition plain_lib :: pylib where
  "plain_lib = \<lparr>json_dumps = (\<lambda>v. ''{}''), py_str = (\<lambda>v. ''?'')\<rparr>"

definition test_client :: client where
  "test_client = new_client ''sk_test_123456789'' DEFAULT_API_URL True"

section \<open>Properties\<close>

subsection \<open>The parts of a multipart publish\<close>

text \<open>
  On a dict (distinct keys) the loop of \<open>publish_files\<close> appends one part per image, in
  order; the part names are distinct because \<open>part_name\<close> is injective.
\<close>

lemma update_fresh: "k \<notin> fst ` set ps \<Longrightarrow> AList.update k v ps = ps @ [(k, v)]"
  by (induction ps) auto

lemma part_name_inj: "part_name a = part_name b \<longleftrightarrow> a = b"
  by (simp add: part_name_def)

lemma publish_files_foldl:
  "distinct (map fst xs) \<Longrightarrow> (\<forall>fn \<in> fst ` set xs. part_name fn \<notin> fst ` set acc) \<Longrightarrow>
   foldl (\<lambda>fs (filename, file_bytes).
              AList.update (part_name filename) (filename, file_bytes) fs) acc xs
   = acc @ map (\<lambda>(fn, b). (part_name fn, (fn, b))) xs"
proof (induction xs arbitrary: acc)
  case Nil
  then show ?case by simp
next
  case (Cons x xs)
  obtain fn b where x: "x = (fn, b)" by (cases x)
  have fresh: "part_name fn \<notin> fst ` set acc" using Cons.prems(2) x by auto
  have d: "distinct (map fst xs)" and nin: "fn \<notin> fst ` set xs" using Cons.prems(1) x by auto
  have "\<forall>g \<in> fst ` set xs. part_name g \<notin> fst ` set (acc @ [(part_name fn, (fn, b))])"
    using Cons.prems(2) nin by (auto simp: part_name_inj)
  from Cons.IH[OF d this] show ?case using fresh x by (simp add: update_fresh)
qed

lemma publish_files_distinct:
  "distinct (map fst xs) \<Longrightarrow> publish_files (Some xs) = map (\<lambda>(fn, b). (part_name fn, (fn, b))) xs"
  unfolding publish_files_def using publish_files_foldl[of xs "[]"] by simp


lemma update_nonempty: "AList.update k v ps \<noteq> []"
  by (cases ps) auto

lemma publish_files_foldl_empty:
  "foldl (\<lambda>fs (filename, file_bytes).
            AList.update (part_name filename) (filename, file_bytes) fs) acc xs = []
   \<longleftrightarrow> acc = [] \<and> xs = []"
proof (induction xs arbitrary: acc)
  case Nil
  show ?case by simp
next
  case (Cons x xs)
  obtain fn b where x: "x = (fn, b)" by (cases x)
  show ?case unfolding x by (simp add: Cons.IH update_nonempty)
qed

lemma publish_files_empty_iff: "publish_files (Some xs) = [] \<longleftrightarrow> xs = []"
  by (simp add: publish_files_def publish_files_foldl_empty)

subsection \<open>Error classification and the dispatch\<close>

text \<open>
  \<open>handle_response_errors\<close> follows the classification table whenever \<open>error_data\<close> is a
  dict, and raises AttributeError otherwise. No exception of the transport leaves
  \<open>request\<close> unconverted.
\<close>

lemma raised_simps [simp]:
  "raised_class (Inl e) = exn_class e" "raised_class (Inr x) = None"
  "raised_status (Inl e) = exn_status e" "raised_status (Inr x) = None"
  "raised_response (Inl e) = exn_response e" "raised_response (Inr x) = None"
  by (simp_all add: raised_class_def raised_status_def raised_response_def)

lemma raise_simps [simp]:
  "raised_class (raise cls msg sc resp) = Some cls"
  "raised_status (raise cls msg sc resp) = sc"
  "raised_response (raise cls msg sc resp) = resp"
  "raise cls msg sc resp \<noteq> Inl (Requests e)"
  "raise cls msg sc resp \<noteq> Inl AttributeError"
  "raise cls msg sc resp \<noteq> Inr x"
  by (simp_all add: raise_def)

lemma handle_response_errors_success:
  "Response.status_code r < 400 \<Longrightarrow> handle_response_errors L r = Inr ()"
  by (simp add: handle_response_errors_def)

lemma handle_response_errors_not_dict:
  "400 \<le> Response.status_code r \<Longrightarrow> \<not> isinstance_dict (error_data r) \<Longrightarrow>
   handle_response_errors L r = Inl AttributeError"
  by (cases "error_data r") (simp_all add: handle_response_errors_def bind_def)

lemma handle_response_errors_dict:
  assumes "400 \<le> Response.status_code r" and "isinstance_dict (error_data r)"
  shows "raised_class (handle_response_errors L r) = Some (classification_table (Response.status_code r))"
    and "raised_status (handle_response_errors L r) = Some (Response.status_code r)"
    and "raised_response (handle_response_errors L r) = Some (error_data r)"
  using assms
  by (cases "error_data r"; simp add: handle_response_errors_def bind_def classification_table_def)+

lemma handle_response_errors_not_requests:
  "handle_response_errors L r \<noteq> Inl (Requests e)"
  by (cases "error_data r"; simp add: handle_response_errors_def bind_def)

lemma request_except_not_requests: "request_except L t x \<noteq> Inl (Requests e)" 
  by (induction L t x rule: request_except.induct) simp_all

lemma request_except_other: "(\<And>x. e \<noteq> Requests x) \<Longrightarrow> request_except L t e = Inl e"
  by (cases e) auto

lemma request_not_requests: "fst (request L T c a) \<noteq> Inl (Requests e)"
  by (cases "request_try L T c a") (simp_all add: request_def request_except_not_requests)

lemma request_trace: "snd (request L T c a) = [session_request_of c a]"
  by (simp add: request_def)

lemma request_raises:
  "T (session_request_of c a) = Raises e \<Longrightarrow> raised_class (fst (request L T c a)) = Some NetworkError"
  by (cases e) (simp_all add: request_def request_try_def)

lemma request_returns:
  assumes that: "T (session_request_of c a) = Returns r"
  shows "fst (request L T c a) = (case handle_response_errors L r of Inl e \<Rightarrow> Inl e | Inr u \<Rightarrow> Inr r)"
proof (cases "handle_response_errors L r")
  case (Inl e)
  then have "\<And>x. e \<noteq> Requests x" using handle_response_errors_not_requests[of L r] by auto
  then have "request_except L (arg_timeout a) e = Inl e" by (rule request_except_other)
  with Inl show ?thesis using that by (simp add: request_def request_try_def bind_def)
next
  case (Inr u)
  then show ?thesis using that by (simp add: request_def request_try_def bind_def)
qed

lemma request_classification:
  assumes "T (session_request_of c a) = Returns r"
    and "400 \<le> Response.status_code r" and "isinstance_dict (error_data r)"
  shows "raised_class (fst (request L T c a)) = Some (classification_table (Response.status_code r))"
    and "raised_status (fst (request L T c a)) = Some (Response.status_code r)"
    and "raised_response (fst (request L T c a)) = Some (error_data r)"
proof -
  have cls: "raised_class (handle_response_errors L r) = Some (classification_table (Response.status_code r))"
    using assms(2,3) by (rule handle_response_errors_dict(1))
  then obtain err where err: "handle_response_errors L r = Inl err"
    by (cases "handle_response_errors L r") auto
  then have req: "fst (request L T c a) = Inl err"
    using request_returns[where T=T and c=c and a=a and r=r and L=L] assms(1) by simp
  show "raised_class (fst (request L T c a)) = Some (classification_table (Response.status_code r))"
    using cls err req by simp
  show "raised_status (fst (request L T c a)) = Some (Response.status_code r)"
    using handle_response_errors_dict(2)[OF assms(2,3), of L] err req by simp
  show "raised_response (fst (request L T c a)) = Some (error_data r)"
    using handle_response_errors_dict(3)[OF assms(2,3), of L] err req by simp
qed

text \<open>
  Claim C1 (every response with status 400, 401, 403, 404, 422, 429 or 500 is raised as the
  error kind of the classification table, carrying the response's status code), evaluated
  on the code at a response with status 404 whose body is the JSON array \<^verbatim>\<open>[]\<close>:
  \<^verbatim>\<open>response.json()\<close> succeeds with a list, \<^verbatim>\<open>error_data.get\<close> does not exist on it, and
  the dispatch lets the AttributeError through. No error of the table is raised and no
  status code is carried. For a body that is not JSON, or that decodes to an object, the
  table holds (\<open>request_classification\<close>).
\<close>

theorem request_non_object_body_AttributeError:
  "fst (request L (always_returns \<lparr>Response.status_code = 404, resp_text = ''[]'', json = Inr (PList [])\<rparr>) c a)
     = Inl AttributeError"
  by (simp add: request_def request_try_def handle_response_errors_def error_data_def bind_def)

subsection \<open>Construction and the authentication probe\<close>

text \<open>
  Claim C2 (a probe answered with any status other than 200 fails construction with an
  Authentication error), evaluated on the code at a probe answered with status 404 and the
  body \<^verbatim>\<open>{}\<close>: \<^verbatim>\<open>_request\<close> raises the NotFound error of the classification table
  before \<^verbatim>\<open>_verify_authentication\<close> reaches its own test \<^verbatim>\<open>status_code != 200\<close>, so
  construction fails with NotFound, not with Authentication. The test and its message
  are reached for statuses below 400 only.
\<close>

theorem probe_404_raises_NotFoundError:
  "raised_class (fst (init plain_lib
       (always_returns \<lparr>Response.status_code = 404, resp_text = ''{}'', json = Inr (PDict [])\<rparr>)
       (PStr ''sk_test_123456789'') DEFAULT_API_URL True)) = Some NotFoundError
   \<and> raised_class (fst (init plain_lib
       (always_returns \<lparr>Response.status_code = 404, resp_text = ''{}'', json = Inr (PDict [])\<rparr>)
       (PStr ''sk_test_123456789'') DEFAULT_API_URL True)) \<noteq> Some AuthenticationError"
  by (simp add: startswith_def verify_authentication_def request_def request_try_def
      handle_response_errors_def error_data_def bind_def raise_def)

lemma verify_authentication_raises:
  assumes "T (session_request_of c verify_authentication_args) = Raises e"
  shows "raised_class (fst (verify_authentication L T c)) = Some NetworkError"
proof -
  obtain x tr where req: "request L T c verify_authentication_args = (x, tr)"
    by (cases "request L T c verify_authentication_args")
  have cls: "raised_class x = Some NetworkError"
    using assms request_raises[where T=T and c=c and a=verify_authentication_args and e=e and L=L] req by simp
  then obtain err where x: "x = Inl (Raised err)" and "error_class err = NetworkError"
    by (cases x; cases "projl x") auto
  then show ?thesis by (simp add: verify_authentication_def req)
qed

lemma verify_authentication_returns:
  assumes "T (session_request_of c verify_authentication_args) = Returns r"
  shows "fst (verify_authentication L T c) =
     (case handle_response_errors L r of
        Inl e \<Rightarrow> Inl e
      | Inr u \<Rightarrow> if Response.status_code r \<noteq> 200 then
                   raise AuthenticationError
                     ''Invalid API key. Verify at: https://bugbounty-ksp.com/settings/api-keys''
                     None None
                 else Inr ())"
proof -
  obtain x tr where req: "request L T c verify_authentication_args = (x, tr)"
    by (cases "request L T c verify_authentication_args")
  have x: "x = (case handle_response_errors L r of Inl e \<Rightarrow> Inl e | Inr u \<Rightarrow> Inr r)"
    using assms request_returns[where T=T and c=c and a=verify_authentication_args and r=r and L=L] req by simp
  show ?thesis
  proof (cases "handle_response_errors L r")
    case (Inl e)
    have "\<And>y. e \<noteq> Requests y" using handle_response_errors_not_requests[of L r] Inl by auto
    then show ?thesis using Inl x by (cases e) (auto simp: verify_authentication_def req)
  next
    case (Inr u)
    then show ?thesis using x by (simp add: verify_authentication_def req)
  qed
qed

lemma init_valid:
  assumes "k \<noteq> []" and "startswith k ''sk_''"
  shows "fst (init L T (PStr k) u vs) =
     (case fst (verify_authentication L T (new_client k u vs)) of
        Inl e \<Rightarrow> Inl e | Inr x \<Rightarrow> Inr (new_client k u vs))"
    and "snd (init L T (PStr k) u vs) = snd (verify_authentication L T (new_client k u vs))"
  using assms
  by (cases "verify_authentication L T (new_client k u vs)"; cases "fst (verify_authentication L T (new_client k u vs))"; simp)+

lemma raised_class_case_Inl:
  "raised_class (case m of Inl e \<Rightarrow> Inl e | Inr x \<Rightarrow> Inr (f x)) = raised_class m"
  by (cases m) simp_all

text \<open>
  The outcomes of construction by the transport's answer to the probe, for a well-formed
  credential: a transport exception gives a Network error; a response with a status below
  400 other than 200 gives an Authentication error; a response with a status of 400 or
  more, whose body is not JSON or decodes to a JSON object, gives the error the dispatch
  raises for that status.
\<close>

lemma probe_outcomes:
  assumes "k \<noteq> []" and "startswith k ''sk_''"
  shows "(T (session_request_of (new_client k u vs) verify_authentication_args) = Raises e \<longrightarrow>
            raised_class (fst (init L T (PStr k) u vs)) = Some NetworkError)
       \<and> (T (session_request_of (new_client k u vs) verify_authentication_args) = Returns r
            \<and> Response.status_code r \<noteq> 200 \<and> Response.status_code r < 400 \<longrightarrow>
            raised_class (fst (init L T (PStr k) u vs)) = Some AuthenticationError)
       \<and> (T (session_request_of (new_client k u vs) verify_authentication_args) = Returns r
            \<and> 400 \<le> Response.status_code r \<and> isinstance_dict (error_data r) \<longrightarrow>
            raised_class (fst (init L T (PStr k) u vs)) = Some (classification_table (Response.status_code r)))"
proof (intro conjI impI)
  assume "T (session_request_of (new_client k u vs) verify_authentication_args) = Raises e"
  with verify_authentication_raises[where T=T and c="new_client k u vs" and e=e and L=L]
  show "raised_class (fst (init L T (PStr k) u vs)) = Some NetworkError"
    by (simp add: init_valid(1)[OF assms] raised_class_case_Inl del: init.simps)
next
  assume a: "T (session_request_of (new_client k u vs) verify_authentication_args) = Returns r
            \<and> Response.status_code r \<noteq> 200 \<and> Response.status_code r < 400"
  then have "handle_response_errors L r = Inr ()" by (simp add: handle_response_errors_success)
  with a verify_authentication_returns[where T=T and c="new_client k u vs" and r=r and L=L]
  show "raised_class (fst (init L T (PStr k) u vs)) = Some AuthenticationError"
    by (simp add: init_valid(1)[OF assms] raised_class_case_Inl del: init.simps)
next
  assume a: "T (session_request_of (new_client k u vs) verify_authentication_args) = Returns r
            \<and> 400 \<le> Response.status_code r \<and> isinstance_dict (error_data r)"
  then have cls: "raised_class (handle_response_errors L r) = Some (classification_table (Response.status_code r))"
    by (simp add: handle_response_errors_dict(1))
  then obtain err where "handle_response_errors L r = Inl err"
    by (cases "handle_response_errors L r") auto
  with a cls verify_authentication_returns[where T=T and c="new_client k u vs" and r=r and L=L]
  show "raised_class (fst (init L T (PStr k) u vs)) = Some (classification_table (Response.status_code r))"
    by (simp add: init_valid(1)[OF assms] raised_class_case_Inl del: init.simps)
qed

lemma probe_outcomes_example:
  "raised_class (fst (init plain_lib (always_raises (Timeout ''timed out''))
       (PStr ''sk_test_123456789'') DEFAULT_API_URL True)) = Some NetworkError
   \<and> raised_class (fst (init plain_lib
       (always_returns \<lparr>Response.status_code = 204, resp_text = [], json = Inl ''no body''\<rparr>)
       (PStr ''sk_test_123456789'') DEFAULT_API_URL True)) = Some AuthenticationError
   \<and> raised_class (fst (init plain_lib
       (always_returns \<lparr>Response.status_code = 500, resp_text = ''Internal server error'',
                         json = Inl ''not JSON''\<rparr>)
       (PStr ''sk_test_123456789'') DEFAULT_API_URL True)) = Some APIError"
  using probe_outcomes [where k = "''sk_test_123456789''" and L = plain_lib
          and T = "always_raises (Timeout ''timed out'')" and e = "Timeout ''timed out''"
          and u = DEFAULT_API_URL and vs = True]
        probe_outcomes [where k = "''sk_test_123456789''" and L = plain_lib
          and T = "always_returns \<lparr>Response.status_code = 204, resp_text = [], json = Inl ''no body''\<rparr>"
          and r = "\<lparr>Response.status_code = 204, resp_text = [], json = Inl ''no body''\<rparr>"
          and u = DEFAULT_API_URL and vs = True]
        probe_outcomes [where k = "''sk_test_123456789''" and L = plain_lib
          and T = "always_returns \<lparr>Response.status_code = 500, resp_text = ''Internal server error'',
                         json = Inl ''not JSON''\<rparr>"
          and r = "\<lparr>Response.status_code = 500, resp_text = ''Internal server error'',
                         json = Inl ''not JSON''\<rparr>"
          and u = DEFAULT_API_URL and vs = True]
  by (simp add: startswith_def error_data_def classification_table_def del: init.simps)

subsection \<open>Publishing\<close>

lemma publish_article_valid:
  assumes "title \<noteq> []" and "content \<noteq> []" and "isinstance_dict fm"
  shows "snd (publish_article L T c title content fm imgs fp) =
           [session_request_of c (publish_article_args L title content fm imgs fp)]"
    and "fst (publish_article L T c title content fm imgs fp) =
           bind (fst (request L T c (publish_article_args L title content fm imgs fp)))
             (\<lambda>r. bind (response_json r) make_PublishResponse)"
proof -
  obtain x tr where req: "request L T c (publish_article_args L title content fm imgs fp) = (x, tr)"
    by (cases "request L T c (publish_article_args L title content fm imgs fp)")
  have tr: "tr = [session_request_of c (publish_article_args L title content fm imgs fp)]"
    using request_trace[of L T c "publish_article_args L title content fm imgs fp"] req by simp
  show "snd (publish_article L T c title content fm imgs fp) =
           [session_request_of c (publish_article_args L title content fm imgs fp)]"
    using assms tr by (cases x) (simp_all add: publish_article_def req)
  show "fst (publish_article L T c title content fm imgs fp) =
           bind (fst (request L T c (publish_article_args L title content fm imgs fp)))
             (\<lambda>r. bind (response_json r) make_PublishResponse)"
    using assms by (cases x) (simp_all add: publish_article_def req bind_def)
qed

text \<open>
  Claim C3. A publish call that passes validation hands the transport exactly one request.
  With an empty images mapping its body is JSON-encoded and has no multipart part; with at
  least one image it is multipart form data whose parts are, in order, one per image, named
  \<^verbatim>\<open>images[<filename>]\<close> and holding (filename, bytes), with pairwise distinct names, and
  the four scalar fields travel as form fields. The images mapping is a dict, so its keys
  are distinct.
\<close>

theorem publish_encoding:
  assumes "title \<noteq> []" and "content \<noteq> []" and "isinstance_dict frontmatter"
    and "distinct (map fst imgs)"
  shows "snd (publish_article L T c title content frontmatter (Some imgs) file_path) =
     [\<lparr>http_method = ''POST'',
       url = api_url c @ ''/api/articles/publish'',
       body = (if imgs = [] then
                 JsonBody (Some [(''title'', PStr title), (''content'', PStr content),
                                 (''frontmatter'', PStr (json_dumps L frontmatter)),
                                 (''file_path'', PStr file_path)])
               else
                 MultipartBody (Some [(''title'', PStr title), (''content'', PStr content),
                                      (''frontmatter'', PStr (json_dumps L frontmatter)),
                                      (''file_path'', PStr file_path)])
                   (map (\<lambda>(filename, file_bytes).
                           (''images['' @ filename @ '']'', (filename, file_bytes))) imgs)),
       timeout = 30, verify = verify_ssl c, session_headers = headers c\<rparr>]
   \<and> distinct (map fst (map (\<lambda>(filename, file_bytes).
                           (''images['' @ filename @ '']'', (filename, file_bytes))) imgs))"
proof
  have files: "publish_files (Some imgs) =
      map (\<lambda>(filename, file_bytes). (''images['' @ filename @ '']'', (filename, file_bytes))) imgs"
    using publish_files_distinct[OF assms(4)] by (simp add: part_name_def)
  have empty: "publish_files (Some imgs) = [] \<longleftrightarrow> imgs = []"
    by (rule publish_files_empty_iff)
  show "snd (publish_article L T c title content frontmatter (Some imgs) file_path) =
     [\<lparr>http_method = ''POST'',
       url = api_url c @ ''/api/articles/publish'',
       body = (if imgs = [] then
                 JsonBody (Some [(''title'', PStr title), (''content'', PStr content),
                                 (''frontmatter'', PStr (json_dumps L frontmatter)),
                                 (''file_path'', PStr file_path)])
               else
                 MultipartBody (Some [(''title'', PStr title), (''content'', PStr content),
                                      (''frontmatter'', PStr (json_dumps L frontmatter)),
                                      (''file_path'', PStr file_path)])
                   (map (\<lambda>(filename, file_bytes).
                           (''images['' @ filename @ '']'', (filename, file_bytes))) imgs)),
       timeout = 30, verify = verify_ssl c, session_headers = headers c\<rparr>]"
    unfolding publish_article_valid(1)[OF assms(1-3)]
    using files empty
    by (simp add: session_request_of_def publish_article_args_def publish_data_def
        REQUEST_TIMEOUT_def Let_def)
  have eq: "map fst (map (\<lambda>(filename, file_bytes).
                           (''images['' @ filename @ '']'', (filename, file_bytes))) imgs)
        = map part_name (map fst imgs)"
    by (induction imgs) (auto simp: part_name_def)
  have d: "distinct (map part_name (map fst imgs))"
    using assms(4) by (simp add: distinct_map inj_on_def part_name_inj)
  show "distinct (map fst (map (\<lambda>(filename, file_bytes).
                           (''images['' @ filename @ '']'', (filename, file_bytes))) imgs))"
    unfolding eq by (rule d)
qed

text \<open>The statement above at concrete inputs.\<close>

theorem publish_encoding_witness:
  "snd (publish_article plain_lib (always_raises (ConnectionError ''No connection'')) test_client
          ''Test Article'' ''# Test Content'' (PDict [(''title'', PStr ''Test'')])
          (Some [(''screenshot.png'', ''fake_image_bytes''), (''b.png'', ''xy'')])
          ''/path/to/article.md'') =
     [\<lparr>http_method = ''POST'',
       url = ''https://api.bugbounty-ksp.com/api/articles/publish'',
       body = MultipartBody
                (Some [(''title'', PStr ''Test Article''), (''content'', PStr ''# Test Content''),
                       (''frontmatter'', PStr ''{}''),
                       (''file_path'', PStr ''/path/to/article.md'')])
                [(''images[screenshot.png]'', (''screenshot.png'', ''fake_image_bytes'')),
                 (''images[b.png]'', (''b.png'', ''xy''))],
       timeout = 30, verify = True,
       session_headers = [(''Authorization'', ''Bearer sk_test_123456789''),
                          (''User-Agent'', ''BugBountyKSP-SDK/1.0''),
                          (''Accept'', ''application/json'')]\<rparr>]
   \<and> snd (publish_article plain_lib (always_raises (ConnectionError ''No connection'')) test_client
          ''Test Article'' ''# Test Content'' (PDict [(''title'', PStr ''Test'')])
          (Some []) ''/path/to/article.md'') =
     [\<lparr>http_method = ''POST'',
       url = ''https://api.bugbounty-ksp.com/api/articles/publish'',
       body = JsonBody
                (Some [(''title'', PStr ''Test Article''), (''content'', PStr ''# Test Content''),
                       (''frontmatter'', PStr ''{}''),
                       (''file_path'', PStr ''/path/to/article.md'')]),
       timeout = 30, verify = True,
       session_headers = [(''Authorization'', ''Bearer sk_test_123456789''),
                          (''User-Agent'', ''BugBountyKSP-SDK/1.0''),
                          (''Accept'', ''application/json'')]\<rparr>]"
  using publish_encoding [where title = "''Test Article''" and content = "''# Test Content''"
          and frontmatter = "PDict [(''title'', PStr ''Test'')]"
          and imgs = "[(''screenshot.png'', ''fake_image_bytes''), (''b.png'', ''xy'')]"
          and file_path = "''/path/to/article.md''" and L = plain_lib and c = test_client
          and T = "always_raises (ConnectionError ''No connection'')"]
        publish_encoding [where title = "''Test Article''" and content = "''# Test Content''"
          and frontmatter = "PDict [(''title'', PStr ''Test'')]"
          and imgs = "[]"
          and file_path = "''/path/to/article.md''" and L = plain_lib and c = test_client
          and T = "always_raises (ConnectionError ''No connection'')"]
  by (simp add: plain_lib_def test_client_def new_client_def DEFAULT_API_URL_def rstrip_slash_def)

subsection \<open>Arguments of the dispatch\<close>












subsection \<open>Validation before any request\<close>

text \<open>
  Claim C5. A credential that is empty, is not a string, or is a string that does not start
  with \<^verbatim>\<open>sk_\<close> makes construction fail with a Validation error, and nothing has been
  handed to the transport: no probe request is issued.
\<close>

theorem invalid_credential_rejected:
  assumes "\<not> truthy k \<or> \<not> isinstance_str k \<or> (\<exists>s. k = PStr s \<and> \<not> startswith s ''sk_'')"
  shows "raised_class (fst (init L T k u vs)) = Some ValidationError
       \<and> snd (init L T k u vs) = []"
  using assms by (cases k) auto

text \<open>The statement above at concrete inputs.\<close>

theorem invalid_credential_rejected_witness:
  "raised_class (fst (init plain_lib (always_returns \<lparr>Response.status_code = 200, resp_text = [], json = Inl []\<rparr>)
       (PStr ''invalid_key_123'') DEFAULT_API_URL True)) = Some ValidationError
   \<and> snd (init plain_lib (always_returns \<lparr>Response.status_code = 200, resp_text = [], json = Inl []\<rparr>)
       (PStr ''invalid_key_123'') DEFAULT_API_URL True) = []
   \<and> raised_class (fst (init plain_lib (always_returns \<lparr>Response.status_code = 200, resp_text = [], json = Inl []\<rparr>)
       (PStr '''') DEFAULT_API_URL True)) = Some ValidationError
   \<and> raised_class (fst (init plain_lib (always_returns \<lparr>Response.status_code = 200, resp_text = [], json = Inl []\<rparr>)
       (PInt 5) DEFAULT_API_URL True)) = Some ValidationError"
  using invalid_credential_rejected [where k = "PStr ''invalid_key_123''" and L = plain_lib
          and T = "always_returns \<lparr>Response.status_code = 200, resp_text = [], json = Inl []\<rparr>"
          and u = DEFAULT_API_URL and vs = True]
        invalid_credential_rejected [where k = "PStr ''''" and L = plain_lib
          and T = "always_returns \<lparr>Response.status_code = 200, resp_text = [], json = Inl []\<rparr>"
          and u = DEFAULT_API_URL and vs = True]
        invalid_credential_rejected [where k = "PInt 5" and L = plain_lib
          and T = "always_returns \<lparr>Response.status_code = 200, resp_text = [], json = Inl []\<rparr>"
          and u = DEFAULT_API_URL and vs = True]
  by (simp add: startswith_def del: init.simps)

text \<open>
  Claim C6. Publishing with an empty title, an empty content or a frontmatter that is not
  a dict fails with a Validation error, and no request is handed to the transport.
\<close>

theorem publish_invalid_input_rejected:
  assumes "title = [] \<or> content = [] \<or> \<not> isinstance_dict frontmatter"
  shows "raised_class (fst (publish_article L T c title content frontmatter imgs file_path))
           = Some ValidationError
       \<and> snd (publish_article L T c title content frontmatter imgs file_path) = []"
  using assms by (auto simp: publish_article_def)

text \<open>The statement above at concrete inputs.\<close>

theorem publish_invalid_input_rejected_witness:
  "raised_class (fst (publish_article plain_lib (always_raises (Timeout [])) test_client
       '''' ''x'' (PDict []) (Some []) ''/path/to/article.md'')) = Some ValidationError
   \<and> snd (publish_article plain_lib (always_raises (Timeout [])) test_client
       '''' ''x'' (PDict []) (Some []) ''/path/to/article.md'') = []
   \<and> raised_class (fst (publish_article plain_lib (always_raises (Timeout [])) test_client
       ''x'' '''' (PDict []) (Some []) ''/path/to/article.md'')) = Some ValidationError
   \<and> snd (publish_article plain_lib (always_raises (Timeout [])) test_client
       ''x'' '''' (PDict []) (Some []) ''/path/to/article.md'') = []
   \<and> raised_class (fst (publish_article plain_lib (always_raises (Timeout [])) test_client
       ''Test'' ''# Test'' (PStr ''not_a_dict'') (Some []) ''/path/to/article.md'')) = Some ValidationError
   \<and> snd (publish_article plain_lib (always_raises (Timeout [])) test_client
       ''Test'' ''# Test'' (PStr ''not_a_dict'') (Some []) ''/path/to/article.md'') = []"
  using publish_invalid_input_rejected [where title = "''''" and content = "''x''"
          and frontmatter = "PDict []" and imgs = "Some []" and file_path = "''/path/to/article.md''"
          and L = plain_lib and T = "always_raises (Timeout [])" and c = test_client]
        publish_invalid_input_rejected [where title = "''x''" and content = "''''"
          and frontmatter = "PDict []" and imgs = "Some []" and file_path = "''/path/to/article.md''"
          and L = plain_lib and T = "always_raises (Timeout [])" and c = test_client]
        publish_invalid_input_rejected [where title = "''Test''" and content = "''# Test''"
          and frontmatter = "PStr ''not_a_dict''" and imgs = "Some []" and file_path = "''/path/to/article.md''"
          and L = plain_lib and T = "always_raises (Timeout [])" and c = test_client]
  by simp

subsection \<open>Result records\<close>

lemma response_json_Inr: "json r = Inr v \<Longrightarrow> response_json r = Inr v"
  by (simp add: response_json_def)

text \<open>
  Claim C7. When a publish call that passes validation is answered with a status below 400
  and a JSON object holding \<^verbatim>\<open>article_id\<close>, \<^verbatim>\<open>published_id\<close>, \<^verbatim>\<open>web_url\<close> and
  \<^verbatim>\<open>created_at\<close>, the result carries exactly these four values, \<open>success = True\<close>, and as
  its image mapping the value under \<^verbatim>\<open>images\<close>, or the empty dict when that key is absent.
\<close>

theorem publish_result_fields:
  assumes "title \<noteq> []" and "content \<noteq> []" and "isinstance_dict frontmatter"
    and "T (session_request_of c (publish_article_args L title content frontmatter imgs file_path))
           = Returns r"
    and "Response.status_code r < 400"
    and "json r = Inr (PDict d)"
    and "map_of d ''article_id'' = Some a"
    and "map_of d ''published_id'' = Some p"
    and "map_of d ''web_url'' = Some w"
    and "map_of d ''created_at'' = Some t"
  shows "fst (publish_article L T c title content frontmatter imgs file_path) =
     Inr \<lparr>PublishResponse.success = True, PublishResponse.article_id = a,
          PublishResponse.published_id = p, web_url = w,
          images = (case map_of d ''images'' of None \<Rightarrow> PDict [] | Some i \<Rightarrow> i),
          created_at = t\<rparr>"
proof -
  have "fst (request L T c (publish_article_args L title content frontmatter imgs file_path)) = Inr r"
    using request_returns[where T=T and c=c and L=L and r=r
            and a="publish_article_args L title content frontmatter imgs file_path"]
      assms(4) handle_response_errors_success[OF assms(5), of L]
    by simp
  moreover have "make_PublishResponse (PDict d) =
     Inr \<lparr>PublishResponse.success = True, PublishResponse.article_id = a,
          PublishResponse.published_id = p, web_url = w,
          images = (case map_of d ''images'' of None \<Rightarrow> PDict [] | Some i \<Rightarrow> i),
          created_at = t\<rparr>"
    using assms(7-10) by (simp add: make_PublishResponse_def bind_def)
  ultimately show ?thesis
    using response_json_Inr[OF assms(6)]
    by (simp add: publish_article_valid(2)[OF assms(1-3)] bind_def)
qed

text \<open>The statement above at concrete inputs.\<close>

theorem publish_result_fields_witness:
  "fst (publish_article plain_lib
         (always_returns \<lparr>Response.status_code = 200, resp_text = [],
                  json = Inr (PDict [(''article_id'', PStr ''art_1''),
                                     (''published_id'', PStr ''pub_1''),
                                     (''web_url'', PStr ''https://x/pub_1''),
                                     (''created_at'', PStr ''2024-01-01T00:00:00Z'')])\<rparr>)
         test_client ''Test'' ''Content'' (PDict []) (Some []) ''/path'') =
     Inr \<lparr>PublishResponse.success = True, PublishResponse.article_id = PStr ''art_1'',
          PublishResponse.published_id = PStr ''pub_1'', web_url = PStr ''https://x/pub_1'',
          images = PDict [], created_at = PStr ''2024-01-01T00:00:00Z''\<rparr>"
  using publish_result_fields [where title = "''Test''" and content = "''Content''"
          and frontmatter = "PDict []" and imgs = "Some []" and file_path = "''/path''"
          and L = plain_lib and c = test_client
          and T = "always_returns \<lparr>Response.status_code = 200, resp_text = [],
                  json = Inr (PDict [(''article_id'', PStr ''art_1''),
                                     (''published_id'', PStr ''pub_1''),
                                     (''web_url'', PStr ''https://x/pub_1''),
                                     (''created_at'', PStr ''2024-01-01T00:00:00Z'')])\<rparr>"
          and r = "\<lparr>Response.status_code = 200, resp_text = [],
                  json = Inr (PDict [(''article_id'', PStr ''art_1''),
                                     (''published_id'', PStr ''pub_1''),
                                     (''web_url'', PStr ''https://x/pub_1''),
                                     (''created_at'', PStr ''2024-01-01T00:00:00Z'')])\<rparr>"
          and d = "[(''article_id'', PStr ''art_1''),
                                     (''published_id'', PStr ''pub_1''),
                                     (''web_url'', PStr ''https://x/pub_1''),
                                     (''created_at'', PStr ''2024-01-01T00:00:00Z'')]"
          and a = "PStr ''art_1''" and p = "PStr ''pub_1''" and w = "PStr ''https://x/pub_1''"
          and t = "PStr ''2024-01-01T00:00:00Z''"]
  by simp

text \<open>
  Claim C8. In every request a publish call sends, on the JSON path and on the multipart
  path alike, the \<^verbatim>\<open>frontmatter\<close> field is one string, the \<^verbatim>\<open>json.dumps\<close> of the
  frontmatter dict, not a nested object.
\<close>

theorem frontmatter_sent_as_string:
  assumes "title \<noteq> []" and "content \<noteq> []" and "isinstance_dict frontmatter"
  shows "map body (snd (publish_article L T c title content frontmatter imgs file_path)) =
     [if publish_files imgs = [] then
        JsonBody (Some [(''title'', PStr title), (''content'', PStr content),
                        (''frontmatter'', PStr (json_dumps L frontmatter)),
                        (''file_path'', PStr file_path)])
      else
        MultipartBody (Some [(''title'', PStr title), (''content'', PStr content),
                             (''frontmatter'', PStr (json_dumps L frontmatter)),
                             (''file_path'', PStr file_path)])
          (publish_files imgs)]"
  unfolding publish_article_valid(1)[OF assms]
  by (simp add: session_request_of_def publish_article_args_def publish_data_def Let_def)

text \<open>The statement above at concrete inputs.\<close>

theorem frontmatter_sent_as_string_witness:
  "map body (snd (publish_article plain_lib (always_raises (Timeout [])) test_client
       ''Test'' ''Content'' (PDict [(''tags'', PList [PStr ''bug''])]) (Some []) ''/path'')) =
     [JsonBody (Some [(''title'', PStr ''Test''), (''content'', PStr ''Content''),
                      (''frontmatter'', PStr ''{}''), (''file_path'', PStr ''/path'')])]
   \<and> map body (snd (publish_article plain_lib (always_raises (Timeout [])) test_client
       ''Test'' ''Content'' (PDict [(''tags'', PList [PStr ''bug''])])
       (Some [(''a.png'', ''x'')]) ''/path'')) =
     [MultipartBody (Some [(''title'', PStr ''Test''), (''content'', PStr ''Content''),
                           (''frontmatter'', PStr ''{}''), (''file_path'', PStr ''/path'')])
        [(''images[a.png]'', (''a.png'', ''x''))]]"
  using frontmatter_sent_as_string [where title = "''Test''" and content = "''Content''"
          and frontmatter = "PDict [(''tags'', PList [PStr ''bug''])]" and imgs = "Some []"
          and file_path = "''/path''" and L = plain_lib and c = test_client
          and T = "always_raises (Timeout [])"]
        frontmatter_sent_as_string [where title = "''Test''" and content = "''Content''"
          and frontmatter = "PDict [(''tags'', PList [PStr ''bug''])]"
          and imgs = "Some [(''a.png'', ''x'')]"
          and file_path = "''/path''" and L = plain_lib and c = test_client
          and T = "always_raises (Timeout [])"]
  by (simp add: publish_files_def part_name_def plain_lib_def)

lemma delete_article_fst:
  "fst (delete_article L T c pid) =
     bind (fst (request L T c (delete_article_args pid)))
       (\<lambda>r. bind (response_json r) make_DeleteResponse)"
  by (cases "request L T c (delete_article_args pid)";
      cases "fst (request L T c (delete_article_args pid))")
     (simp_all add: delete_article_def bind_def)

text \<open>
  Claim C9. When a delete call is answered successfully (a status below 400 and a JSON
  object holding \<^verbatim>\<open>article_id\<close>, \<^verbatim>\<open>published_id\<close> and \<^verbatim>\<open>deleted_at\<close>) and the body has no
  \<^verbatim>\<open>archived\<close> key, the result has \<open>archived = True\<close>.
\<close>

theorem delete_archived_default:
  assumes "T (session_request_of c (delete_article_args pid)) = Returns r"
    and "Response.status_code r < 400"
    and "json r = Inr (PDict d)"
    and "map_of d ''article_id'' = Some a"
    and "map_of d ''published_id'' = Some p"
    and "map_of d ''deleted_at'' = Some t"
    and "map_of d ''archived'' = None"
  shows "fst (delete_article L T c pid) =
     Inr \<lparr>success = True, article_id = a, published_id = p, deleted_at = t,
          archived = PBool True\<rparr>"
proof -
  have "fst (request L T c (delete_article_args pid)) = Inr r"
    using request_returns[where T=T and c=c and L=L and r=r and a="delete_article_args pid"]
      assms(1) handle_response_errors_success[OF assms(2), of L]
    by simp
  moreover have "make_DeleteResponse (PDict d) =
     Inr \<lparr>success = True, article_id = a, published_id = p, deleted_at = t,
          archived = PBool True\<rparr>"
    using assms(4-7) by (simp add: make_DeleteResponse_def bind_def)
  ultimately show ?thesis
    using response_json_Inr[OF assms(3)] by (simp add: delete_article_fst bind_def)
qed

text \<open>The statement above at concrete inputs.\<close>

theorem delete_archived_default_witness:
  "fst (delete_article plain_lib
         (always_returns \<lparr>Response.status_code = 200, resp_text = [],
                  json = Inr (PDict [(''article_id'', PStr ''art_1''),
                                     (''published_id'', PStr ''pub_1''),
                                     (''deleted_at'', PStr ''2024-01-02T00:00:00Z'')])\<rparr>)
         test_client ''pub_1'') =
     Inr \<lparr>success = True, article_id = PStr ''art_1'', published_id = PStr ''pub_1'',
          deleted_at = PStr ''2024-01-02T00:00:00Z'', archived = PBool True\<rparr>"
  using delete_archived_default [where pid = "''pub_1''" and L = plain_lib and c = test_client
          and T = "always_returns \<lparr>Response.status_code = 200, resp_text = [],
                  json = Inr (PDict [(''article_id'', PStr ''art_1''),
                                     (''published_id'', PStr ''pub_1''),
                                     (''deleted_at'', PStr ''2024-01-02T00:00:00Z'')])\<rparr>"
          and r = "\<lparr>Response.status_code = 200, resp_text = [],
                  json = Inr (PDict [(''article_id'', PStr ''art_1''),
                                     (''published_id'', PStr ''pub_1''),
                                     (''deleted_at'', PStr ''2024-01-02T00:00:00Z'')])\<rparr>"
          and d = "[(''article_id'', PStr ''art_1''),
                                     (''published_id'', PStr ''pub_1''),
                                     (''deleted_at'', PStr ''2024-01-02T00:00:00Z'')]"
          and a = "PStr ''art_1''" and p = "PStr ''pub_1''"
          and t = "PStr ''2024-01-02T00:00:00Z''"]
  by simp

lemma make_PublishResponse_success:
  "make_PublishResponse v = Inr res \<Longrightarrow> PublishResponse.success res"
  by (auto simp: make_PublishResponse_def bind_def split: sum.splits)

lemma make_DeleteResponse_success:
  "make_DeleteResponse v = Inr res \<Longrightarrow> success res"
  by (auto simp: make_DeleteResponse_def bind_def split: sum.splits)

text \<open>
  Claim C10. Every result record returned by publish and every one returned by delete has
  \<open>success = True\<close>; these are the only operations that return a result record.
\<close>

theorem results_always_successful:
  "(fst (publish_article L T c title content frontmatter imgs file_path) = Inr pres
      \<longrightarrow> PublishResponse.success pres)
   \<and> (fst (delete_article L T c pid) = Inr dres \<longrightarrow> success dres)"
proof (intro conjI impI)
  assume h: "fst (publish_article L T c title content frontmatter imgs file_path) = Inr pres"
  then have valid: "title \<noteq> []" "content \<noteq> []" "isinstance_dict frontmatter"
    by (auto simp: publish_article_def raise_def split: if_splits)
  from h have "\<exists>v. make_PublishResponse v = Inr pres"
    unfolding publish_article_valid(2)[OF valid]
    by (auto simp: bind_def split: sum.splits)
  then show "PublishResponse.success pres" by (auto dest: make_PublishResponse_success)
next
  assume "fst (delete_article L T c pid) = Inr dres"
  then have "\<exists>v. make_DeleteResponse v = Inr dres"
    unfolding delete_article_fst by (auto simp: bind_def split: sum.splits)
  then show "success dres" by (auto dest: make_DeleteResponse_success)
qed

text \<open>The statement above at concrete inputs.\<close>

theorem results_always_successful_witness:
  "fst (publish_article plain_lib
         (always_returns \<lparr>Response.status_code = 200, resp_text = [],
                  json = Inr (PDict [(''article_id'', PStr ''art_1''),
                                     (''published_id'', PStr ''pub_1''),
                                     (''web_url'', PStr ''https://x/pub_1''),
                                     (''created_at'', PStr ''2024-01-01T00:00:00Z'')])\<rparr>)
         test_client ''Test'' ''Content'' (PDict []) (Some []) ''/path'') =
     Inr \<lparr>PublishResponse.success = True, PublishResponse.article_id = PStr ''art_1'',
          PublishResponse.published_id = PStr ''pub_1'', web_url = PStr ''https://x/pub_1'',
          images = PDict [], created_at = PStr ''2024-01-01T00:00:00Z''\<rparr>
   \<and> PublishResponse.success
       \<lparr>PublishResponse.success = True, PublishResponse.article_id = PStr ''art_1'',
          PublishResponse.published_id = PStr ''pub_1'', web_url = PStr ''https://x/pub_1'',
          images = PDict [], created_at = PStr ''2024-01-01T00:00:00Z''\<rparr>
   \<and> fst (delete_article plain_lib
         (always_returns \<lparr>Response.status_code = 200, resp_text = [],
                  json = Inr (PDict [(''article_id'', PStr ''art_1''),
                                     (''published_id'', PStr ''pub_1''),
                                     (''deleted_at'', PStr ''2024-01-02T00:00:00Z''),
                                     (''archived'', PBool False)])\<rparr>)
         test_client ''pub_1'') =
     Inr \<lparr>success = True, article_id = PStr ''art_1'', published_id = PStr ''pub_1'',
          deleted_at = PStr ''2024-01-02T00:00:00Z'', archived = PBool False\<rparr>
   \<and> success \<lparr>success = True, article_id = PStr ''art_1'', published_id = PStr ''pub_1'',
          deleted_at = PStr ''2024-01-02T00:00:00Z'', archived = PBool False\<rparr>"
proof -
  have h1: "fst (publish_article plain_lib
         (always_returns \<lparr>Response.status_code = 200, resp_text = [],
                  json = Inr (PDict [(''article_id'', PStr ''art_1''),
                                     (''published_id'', PStr ''pub_1''),
                                     (''web_url'', PStr ''https://x/pub_1''),
                                     (''created_at'', PStr ''2024-01-01T00:00:00Z'')])\<rparr>)
         test_client ''Test'' ''Content'' (PDict []) (Some []) ''/path'') =
     Inr \<lparr>PublishResponse.success = True, PublishResponse.article_id = PStr ''art_1'',
          PublishResponse.published_id = PStr ''pub_1'', web_url = PStr ''https://x/pub_1'',
          images = PDict [], created_at = PStr ''2024-01-01T00:00:00Z''\<rparr>"
    by (simp add: publish_article_def request_def request_try_def handle_response_errors_def
        bind_def response_json_def make_PublishResponse_def)
  have h2: "fst (delete_article plain_lib
         (always_returns \<lparr>Response.status_code = 200, resp_text = [],
                  json = Inr (PDict [(''article_id'', PStr ''art_1''),
                                     (''published_id'', PStr ''pub_1''),
                                     (''deleted_at'', PStr ''2024-01-02T00:00:00Z''),
                                     (''archived'', PBool False)])\<rparr>)
         test_client ''pub_1'') =
     Inr \<lparr>success = True, article_id = PStr ''art_1'', published_id = PStr ''pub_1'',
          deleted_at = PStr ''2024-01-02T00:00:00Z'', archived = PBool False\<rparr>"
    by (simp add: delete_article_def request_def request_try_def handle_response_errors_def
        bind_def response_json_def make_DeleteResponse_def)
  from results_always_successful [THEN conjunct1, rule_format, OF h1]
       results_always_successful [THEN conjunct2, rule_format, OF h2] h1 h2
  show ?thesis by simp
qed

end
